theory Spec2Isabelle
  imports Complex_Main
begin

section \<open>The EmmyLua extension host glue (src/extension.ts)\<close>

text \<open>
  The extension is a set of event handlers over a few module variables
  (\<open>DEBUG_MODE\<close>, \<open>client\<close>, \<open>activeEditor\<close>, \<open>javaExecutablePath\<close>, \<open>progressBar\<close>).
  Each handler is embedded as a function from the module state, and from what the
  host answers to the calls the handler makes, to the list of calls made on the host
  (in program order) and the new module state. An asynchronous handler is embedded
  as one flow, from its call to the point where it waits for an answer that the host
  has not given; calls of other handlers that the event loop may run in between are
  not interleaved with it. JavaScript strings are modelled as \<open>string\<close>, the texts
  whose code units are below 256 (of the line terminators of ECMAScript, only line
  feed and carriage return are such characters); console output is not modelled.
\<close>

subsection \<open>The version pattern of \<open>validateJava\<close>\<close>

text \<open>
  \<open>validateJava\<close> applies the regular expression

  \<^verbatim>\<open>/(?:java|openjdk) version "((\d+)(\.(\d+).+?)?)"/g\<close>

  to the standard error text of \<open>"<exePath>" -version\<close>. The expression is created
  afresh at each call, so \<open>exec\<close> searches from index \<open>0\<close> and the \<open>g\<close> flag has no
  effect. The functions below are the backtracking matcher of ECMAScript specialised
  to this expression, one function per quantified sub-pattern, each trying its
  alternatives in the order the matcher tries them.
\<close>

abbreviation DQ :: char where
  "DQ \<equiv> CHR 0x22"

abbreviation LF :: char where
  "LF \<equiv> CHR 0x0A"

abbreviation CR :: char where
  "CR \<equiv> CHR 0x0D"

text \<open>\<open>\d\<close> is \<open>[0-9]\<close>; \<open>.\<close> is any character but a line terminator.\<close>

definition isDigit :: "char \<Rightarrow> bool" where
  "isDigit c \<longleftrightarrow> 48 \<le> (of_char c :: nat) \<and> (of_char c :: nat) \<le> 57"

definition isLineTerminator :: "char \<Rightarrow> bool" where
  "isLineTerminator c \<longleftrightarrow> c = LF \<or> c = CR"

text \<open>The captures the code reads: \<open>match[1]\<close>, \<open>match[2]\<close> and \<open>match[4]\<close>
  (\<open>undefined\<close>, here \<open>None\<close>, when group 3 took no part in the match).\<close>

record regexp_match =
  m1 :: string
  m2 :: string
  m4 :: "string option"

text \<open>A literal of the pattern: the rest of the input after it.\<close>

fun matchLiteral :: "string \<Rightarrow> string \<Rightarrow> string option" where
  "matchLiteral [] s = Some s"
| "matchLiteral (p # ps) [] = None"
| "matchLiteral (p # ps) (c # cs) = (if p = c then matchLiteral ps cs else None)"

text \<open>
  The lazy \<open>.+?\<close> followed by the closing quote, which ends the pattern.
  \<open>lazyMore\<close> is the quantifier after its first character: it tries the quote first
  and takes one more character only when the quote is not there. The result is the
  text the quantifier consumed.
\<close>

fun lazyMore :: "string \<Rightarrow> string option" where
  "lazyMore [] = None"
| "lazyMore (c # cs) =
     (if c = DQ then Some []
      else if isLineTerminator c then None
      else map_option ((#) c) (lazyMore cs))"

fun dotPlusLazy :: "string \<Rightarrow> string option" where
  "dotPlusLazy [] = None"
| "dotPlusLazy (c # cs) =
     (if isLineTerminator c then None else map_option ((#) c) (lazyMore cs))"

text \<open>
  Group 4, the greedy \<open>(\d+)\<close> of the minor number, then \<open>.+?"\<close>: \<open>k\<close> digits are
  tried first, then \<open>k - 1\<close>, down to one. The result is the capture and the text of
  \<open>.+?\<close>.
\<close>

fun group4 :: "nat \<Rightarrow> string \<Rightarrow> (string \<times> string) option" where
  "group4 0 s = None"
| "group4 (Suc k) s =
     (case dotPlusLazy (drop (Suc k) s) of
        Some t \<Rightarrow> Some (take (Suc k) s, t)
      | None \<Rightarrow> group4 k s)"

text \<open>Group 3, \<open>(\.(\d+).+?)\<close>, then the quote: the text of the group and capture 4.\<close>

fun group3 :: "string \<Rightarrow> (string \<times> string) option" where
  "group3 [] = None"
| "group3 (c # cs) =
     (if c = CHR ''.'' then
        (case group4 (length (takeWhile isDigit cs)) cs of
           Some (mi, t) \<Rightarrow> Some (c # mi @ t, mi)
         | None \<Rightarrow> None)
      else None)"

text \<open>
  Group 2, the greedy \<open>(\d+)\<close> of the major number, then the optional group 3 (tried
  first, the \<open>?\<close> being greedy) or else the quote alone; on failure one digit less.
\<close>

fun group2 :: "nat \<Rightarrow> string \<Rightarrow> regexp_match option" where
  "group2 0 s = None"
| "group2 (Suc k) s =
     (case group3 (drop (Suc k) s) of
        Some (g3, mi) \<Rightarrow>
          Some \<lparr>m1 = take (Suc k) s @ g3, m2 = take (Suc k) s, m4 = Some mi\<rparr>
      | None \<Rightarrow>
          (case matchLiteral [DQ] (drop (Suc k) s) of
             Some _ \<Rightarrow> Some \<lparr>m1 = take (Suc k) s, m2 = take (Suc k) s, m4 = None\<rparr>
           | None \<Rightarrow> group2 k s))"

text \<open>The pattern after the alternative \<open>(?:java|openjdk)\<close>.\<close>

definition afterKeyword :: "string \<Rightarrow> regexp_match option" where
  \<open>afterKeyword s =
     (case matchLiteral '' version "'' s of
        None \<Rightarrow> None
      | Some v \<Rightarrow> group2 (length (takeWhile isDigit v)) v)\<close>

text \<open>The whole pattern at one position: \<open>java\<close> first, then \<open>openjdk\<close>.\<close>

definition matchHere :: "string \<Rightarrow> regexp_match option" where
  "matchHere s =
     (case Option.bind (matchLiteral ''java'' s) afterKeyword of
        Some m \<Rightarrow> Some m
      | None \<Rightarrow> Option.bind (matchLiteral ''openjdk'' s) afterKeyword)"

text \<open>\<open>regexp.exec(stderr)\<close>: the match at the leftmost position that has one.\<close>

fun regexp_exec :: "string \<Rightarrow> regexp_match option" where
  "regexp_exec [] = matchHere []"
| "regexp_exec (c # cs) =
     (case matchHere (c # cs) of Some m \<Rightarrow> Some m | None \<Rightarrow> regexp_exec cs)"

subsection \<open>\<open>validateJava\<close>\<close>

text \<open>
  \<open>parseInt\<close> is applied to a capture of \<open>\d+\<close> or to \<open>undefined\<close> only. On such
  an argument it reads the leading decimal digits, and is \<open>NaN\<close> (here \<open>None\<close>) when
  there is none. The number is kept exact: the code compares it with \<open>1\<close> and \<open>8\<close>
  only, and rounding to a double is monotone and leaves \<open>0\<close>, \<open>1\<close> and \<open>8\<close> fixed, so
  the three comparisons have the same outcome on the rounded value.
\<close>

definition digitValue :: "char \<Rightarrow> nat" where
  "digitValue c = of_char c - 48"

definition decimal :: "string \<Rightarrow> nat" where
  "decimal ds = foldl (\<lambda>a c. 10 * a + digitValue c) 0 ds"

fun parseInt :: "string option \<Rightarrow> nat option" where
  "parseInt None = None"
| "parseInt (Some s) =
     (if takeWhile isDigit s = [] then None else Some (decimal (takeWhile isDigit s)))"

text \<open>\<open>x || 0\<close> on a number: \<open>NaN\<close> and \<open>0\<close> are falsy.\<close>

fun orZero :: "nat option \<Rightarrow> nat" where
  "orZero None = 0"
| "orZero (Some n) = n"

text \<open>
  A promise is pending, fulfilled with a value or rejected with a reason. A reason
  is any JavaScript value. The code observes a reason in two ways only: it reads its
  \<open>message\<close> property, and it converts it to a string inside a template literal. So
  a reason is a string, or an \<open>Error\<close> object with its \<open>name\<close> and its \<open>message\<close>, or
  any other value, given by its conversion to a string and by its \<open>message\<close>
  property when it has one that is a string.
\<close>

datatype jsvalue = JSString string | JSError string string | JSOther string "string option"

datatype 'a settled = Pending | Fulfilled 'a | Rejected jsvalue

definition cantFindJava :: string where
  "cantFindJava =
     ''Can't find Java! Please install Java 1.8 or above and set JAVA_HOME environment variable.''"

definition unsupportedJava :: "string \<Rightarrow> string" where
  "unsupportedJava v =
     ''Unsupported Java version: '' @ v @ '', please install Java 1.8 or above.''"

text \<open>The callback of \<open>cp.exec\<close> in \<open>validateJava\<close>, as a function of \<open>stderr\<close>:
  how the promise that \<open>validateJava\<close> returns is settled.\<close>

definition validateJava :: "string \<Rightarrow> unit settled" where
  "validateJava stderr =
     (if stderr \<noteq> [] then
        (case regexp_exec stderr of
           Some match \<Rightarrow>
             (let major = orZero (parseInt (Some (m2 match)));
                  minor = orZero (parseInt (m4 match))
              in if major > 1 \<or> (major = 1 \<and> minor \<ge> 8) then Fulfilled ()
                 else Rejected (JSString (unsupportedJava (m1 match))))
         | None \<Rightarrow> Rejected (JSString cantFindJava))
      else Rejected (JSString cantFindJava))"

subsection \<open>Module state, host and calls\<close>

text \<open>
  A \<open>TextDocument\<close> is an object of the host, compared with \<open>===\<close>: it is modelled by
  its address, and its \<open>languageId\<close> is read from the host. A \<open>TextEditor\<close> is its
  address and the document it shows.
\<close>

record text_editor =
  editor_ref :: nat
  document :: nat

text \<open>The server options of the language client: a function that connects a socket
  (\<open>net.connect({port})\<close>, whose host defaults to localhost), or an executable to spawn.\<close>

datatype server_options =
    SocketConnect nat
  | Executable string "string list"

record initialization_options =
  stdFolder :: string
  apiFolders :: "string list"
  workspaceFolders :: "string list option"
  client_tag :: string
  configFiles :: "string list"

record client_options =
  documentSelector :: "(string \<times> string) list"
  configurationSection :: "string list"
  fileEvents :: "string list"
  initializationOptions :: initialization_options

text \<open>A \<open>LanguageClient\<close>, by the arguments of its constructor.\<close>

record language_client =
  client_id :: string
  client_name :: string
  serverOptions :: server_options
  clientOptions :: client_options

text \<open>The module variables (\<open>extensionPath\<close> is \<open>savedContext.extensionPath\<close>;
  \<open>undefined\<close> and \<open>null\<close> are \<open>None\<close>).\<close>

record ext_state =
  DEBUG_MODE :: bool
  extensionPath :: string
  client :: "language_client option"
  activeEditor :: "text_editor option"
  javaExecutablePath :: "string option"

text \<open>
  What the code takes from Node and from the editor and that does not change during
  a handler: \<open>path.resolve\<close>, \<open>path.join\<close>, \<open>vscode.Uri.file(p).toString()\<close>, the
  workspace folders (as uri strings), \<open>process.platform\<close> and the \<open>languageId\<close> of each
  document.
\<close>

record host =
  path_resolve :: "string list \<Rightarrow> string"
  path_join :: "string list \<Rightarrow> string"
  uri_file :: "string \<Rightarrow> string"
  workspace_folders :: "string list option"
  platform :: string
  languageId :: "nat \<Rightarrow> string"

text \<open>The options argument of \<open>showErrorMessage\<close>; a message is modal only when the
  call passes options that say so.\<close>

record message_options =
  modal :: bool

text \<open>The payload of a configuration update (\<open>IEmmyConfigUpdate\<close>, declared outside
  this file) is opaque to the code: it is modelled by its serialised form.\<close>

type_synonym emmy_config_update = string

text \<open>The calls a handler makes on the host, with their arguments.\<close>

datatype effect =
    CpExec string
  | ShowErrorMessage "string option" "message_options option" "string list"
  | ConfigWatcherWatch
  | NewLanguageClient language_client
  | ClientStart language_client
  | ClientOnNotification language_client string
  | ClientStop language_client
  | ClientSendRequest language_client string emmy_config_update
  | RequestAnnotators text_editor "language_client option"
  | AnnotatorOnDidChangeConfiguration "language_client option"
  | FindJava
  | ShowQuickPick "string list"
  | InsertSnippet text_editor string

definition LANGUAGE_ID :: string where
  "LANGUAGE_ID = ''lua''"

subsection \<open>The annotator handlers\<close>

definition onDidChangeTextDocument :: "host \<Rightarrow> nat \<Rightarrow> ext_state \<Rightarrow> effect list" where
  "onDidChangeTextDocument h event_document st =
     (case activeEditor st of
        None \<Rightarrow> []
      | Some ae \<Rightarrow>
          if document ae = event_document \<and> languageId h (document ae) = LANGUAGE_ID
          then [RequestAnnotators ae (client st)]
          else [])"

definition onDidChangeActiveTextEditor ::
    "host \<Rightarrow> text_editor option \<Rightarrow> ext_state \<Rightarrow> effect list \<times> ext_state" where
  "onDidChangeActiveTextEditor h editor st =
     (case editor of
        None \<Rightarrow> ([], st)
      | Some ed \<Rightarrow>
          if languageId h (document ed) = LANGUAGE_ID
          then ([RequestAnnotators ed (client st)], st\<lparr>activeEditor := Some ed\<rparr>)
          else ([], st))"

subsection \<open>Starting the server\<close>

text \<open>
  \<open>startServer\<close> is asynchronous: it goes on when the host settles what it awaits.
  One run through its body is driven by an \<open>attempt\<close>, what the host answers during
  that run: the \<open>stderr\<close> passed to the callback of \<open>cp.exec\<close> (\<open>None\<close> while the
  callback has not been called), how \<open>configWatcher.watch()\<close> and \<open>client.onReady()\<close>
  settle, \<open>vscode.window.activeTextEditor\<close> when the server is ready, and how the
  thenable of \<open>showErrorMessage\<close> settles: fulfilled with the chosen item, fulfilled
  with \<open>undefined\<close> (\<open>None\<close>) when the message is dismissed, or still pending.
\<close>

record attempt =
  exec_stderr :: "string option"
  watch_result :: "string list settled"
  ready_result :: "unit settled"
  window_activeTextEditor :: "text_editor option"
  answer :: "string option settled"

text \<open>The host answers nothing (yet).\<close>

definition idle :: attempt where
  "idle = \<lparr>exec_stderr = None, watch_result = Pending, ready_result = Pending,
           window_activeTextEditor = None, answer = Pending\<rparr>"

text \<open>\<open>javaExecutablePath || "java"\<close>: \<open>null\<close> and the empty string are falsy.\<close>

definition exePath :: "ext_state \<Rightarrow> string" where
  "exePath st =
     (case javaExecutablePath st of
        None \<Rightarrow> ''java''
      | Some p \<Rightarrow> if p = [] then ''java'' else p)"

definition versionCommand :: "ext_state \<Rightarrow> string" where
  "versionCommand st = [DQ] @ exePath st @ [DQ] @ '' -version''"

text \<open>
  \<open>e.message\<close> of a caught value: a string primitive has no such property. And the
  value inside a template literal: \<open>Error.prototype.toString\<close> gives the message when
  the name is empty, the name when the message is empty, and otherwise the name, a
  colon, a space and the message.
\<close>

fun messageOf :: "jsvalue \<Rightarrow> string option" where
  "messageOf (JSString s) = None"
| "messageOf (JSError name msg) = Some msg"
| "messageOf (JSOther s msg) = msg"

fun toString :: "jsvalue \<Rightarrow> string" where
  "toString (JSString s) = s"
| "toString (JSError name msg) =
     (if name = [] then msg else if msg = [] then name else name @ '': '' @ msg)"
| "toString (JSOther s msg) = s"

definition failedToStart :: "jsvalue \<Rightarrow> string" where
  \<open>failedToStart reson =
     ''Failed to start "EmmyLua" language server!'' @ [LF] @ toString reson\<close>

text \<open>\<open>showErrorMessage(msg, "Try again").then(startServer)\<close>: the call, and whether
  \<open>startServer\<close> is called again (it is whenever the thenable is fulfilled).\<close>

definition tryAgain :: "string option \<Rightarrow> attempt \<Rightarrow> effect list \<times> bool" where
  "tryAgain msg a =
     ([ShowErrorMessage msg None [''Try again'']],
      (case answer a of Fulfilled _ \<Rightarrow> True | Pending \<Rightarrow> False | Rejected _ \<Rightarrow> False))"

definition makeServerOptions :: "host \<Rightarrow> ext_state \<Rightarrow> server_options" where
  "makeServerOptions h st =
     (if DEBUG_MODE st then SocketConnect 5007
      else Executable (exePath st)
             [''-cp'', path_resolve h [extensionPath st, ''server'', ''*''],
              ''com.tang.vscode.MainKt'', ''-XX:+UseConcMarkSweepGC''])"

definition makeClientOptions :: "host \<Rightarrow> ext_state \<Rightarrow> string list \<Rightarrow> client_options" where
  "makeClientOptions h st files =
     \<lparr>documentSelector = [(''file'', LANGUAGE_ID)],
      configurationSection = [''emmylua'', ''files.associations''],
      fileEvents = [''**/*.lua''],
      initializationOptions =
        \<lparr>stdFolder = uri_file h (path_resolve h [extensionPath st, ''res/std'']),
         apiFolders = [],
         workspaceFolders = workspace_folders h,
         client_tag = ''vsc'',
         configFiles = files\<rparr>\<rparr>"

definition newClient :: "host \<Rightarrow> ext_state \<Rightarrow> string list \<Rightarrow> language_client" where
  "newClient h st files =
     \<lparr>client_id = LANGUAGE_ID, client_name = ''EmmyLua plugin for vscode.'',
      serverOptions = makeServerOptions h st, clientOptions = makeClientOptions h st files\<rparr>"

text \<open>\<open>doStartServer\<close>: the calls made, the state, and how its promise is settled.\<close>

definition doStartServer ::
    "host \<Rightarrow> attempt \<Rightarrow> ext_state \<Rightarrow> effect list \<times> ext_state \<times> unit settled" where
  "doStartServer h a st =
     (case watch_result a of
        Pending \<Rightarrow> ([ConfigWatcherWatch], st, Pending)
      | Rejected r \<Rightarrow> ([ConfigWatcherWatch], st, Rejected r)
      | Fulfilled files \<Rightarrow>
          (let c = newClient h st files;
               es = [ConfigWatcherWatch, NewLanguageClient c, ClientStart c];
               st' = st\<lparr>client := Some c\<rparr>
           in case ready_result a of
                Pending \<Rightarrow> (es, st', Pending)
              | Rejected r \<Rightarrow> (es, st', Rejected r)
              | Fulfilled _ \<Rightarrow>
                  (es @ [ClientOnNotification c ''emmy/progressReport''], st', Fulfilled ())))"

text \<open>The part of \<open>startServer\<close> after the \<open>try\<close> block:
  \<open>doStartServer().then(...).catch(...)\<close>.\<close>

definition connectServer ::
    "host \<Rightarrow> attempt \<Rightarrow> ext_state \<Rightarrow> effect list \<times> ext_state \<times> bool" where
  "connectServer h a st =
     (case doStartServer h a st of
        (es, st', Fulfilled _) \<Rightarrow>
          (case onDidChangeActiveTextEditor h (window_activeTextEditor a) st' of
             (es2, st2) \<Rightarrow> (es @ es2, st2, False))
      | (es, st', Rejected reson) \<Rightarrow>
          (case tryAgain (Some (failedToStart reson)) a of
             (es2, again) \<Rightarrow> (es @ es2, st', again))
      | (es, st', Pending) \<Rightarrow> (es, st', False))"

text \<open>One run through the body of \<open>startServer\<close>: the calls, the state, and whether
  \<open>startServer\<close> is called again.\<close>

definition startAttempt ::
    "host \<Rightarrow> attempt \<Rightarrow> ext_state \<Rightarrow> effect list \<times> ext_state \<times> bool" where
  "startAttempt h a st =
     (if \<not> DEBUG_MODE st then
        (case exec_stderr a of
           None \<Rightarrow> ([CpExec (versionCommand st)], st, False)
         | Some stderr \<Rightarrow>
             (case validateJava stderr of
                Pending \<Rightarrow> ([CpExec (versionCommand st)], st, False)
              | Rejected e \<Rightarrow>
                  (case tryAgain (messageOf e) a of
                     (es, again) \<Rightarrow> (CpExec (versionCommand st) # es, st, again))
              | Fulfilled _ \<Rightarrow>
                  (case connectServer h a st of
                     (es, st', again) \<Rightarrow> (CpExec (versionCommand st) # es, st', again))))
      else connectServer h a st)"

text \<open>
  \<open>startServer\<close> against a script of attempts, the first for the first run through
  the body and the next ones for the runs that follow from \<open>.then(startServer)\<close>.
  When the script is used up the host answers nothing more.
\<close>

fun startServer :: "host \<Rightarrow> attempt list \<Rightarrow> ext_state \<Rightarrow> effect list \<times> ext_state" where
  "startServer h [] st = (case startAttempt h idle st of (es, st', _) \<Rightarrow> (es, st'))"
| "startServer h (a # as) st =
     (case startAttempt h a st of
        (es, st', again) \<Rightarrow>
          if again then (case startServer h as st' of (es2, st2) \<Rightarrow> (es @ es2, st2))
          else (es, st'))"

subsection \<open>Restart, configuration changes and configuration updates\<close>

text \<open>\<open>restartServer\<close>; \<open>stopped\<close> is how the promise of \<open>client.stop()\<close> settles.\<close>

definition restartServer ::
    "host \<Rightarrow> unit settled \<Rightarrow> attempt list \<Rightarrow> ext_state \<Rightarrow> effect list \<times> ext_state" where
  "restartServer h stopped script st =
     (case client st of
        None \<Rightarrow> startServer h script st
      | Some c \<Rightarrow>
          (case stopped of
             Fulfilled _ \<Rightarrow>
               (case startServer h script st of (es, st') \<Rightarrow> (ClientStop c # es, st'))
           | Pending \<Rightarrow> ([ClientStop c], st)
           | Rejected _ \<Rightarrow> ([ClientStop c], st)))"

text \<open>\<open>onDidChangeConfiguration\<close>; \<open>found\<close> is what \<open>findJava()\<close> returns.\<close>

definition onDidChangeConfiguration ::
    "host \<Rightarrow> string option \<Rightarrow> unit settled \<Rightarrow> attempt list \<Rightarrow> ext_state
      \<Rightarrow> effect list \<times> ext_state" where
  "onDidChangeConfiguration h found stopped script st =
     (let shouldRestart = (found \<noteq> javaExecutablePath st);
          st1 = (if found \<noteq> javaExecutablePath st then st\<lparr>javaExecutablePath := found\<rparr>
                 else st);
          es = [FindJava, AnnotatorOnDidChangeConfiguration (client st1)]
      in if shouldRestart
         then (case restartServer h stopped script st1 of (es2, st2) \<Rightarrow> (es @ es2, st2))
         else (es, st1))"

definition stopServer :: "ext_state \<Rightarrow> effect list" where
  "stopServer st = (case client st of None \<Rightarrow> [] | Some c \<Rightarrow> [ClientStop c])"

definition onConfigUpdate :: "emmy_config_update \<Rightarrow> ext_state \<Rightarrow> effect list" where
  "onConfigUpdate e st =
     (case client st of
        None \<Rightarrow> []
      | Some c \<Rightarrow> [ClientSendRequest c ''emmy/updateConfig'' e])"

subsection \<open>The progress report handler\<close>

text \<open>
  A JavaScript number is \<open>NaN\<close>, an infinity, or a finite double, which is a real
  number; \<open>x >= 1\<close> on doubles is the comparison of the reals they denote, and is
  false on \<open>NaN\<close>.
\<close>

datatype jsnumber = NaN | NegInfinity | Num real | PosInfinity

fun geOne :: "jsnumber \<Rightarrow> bool" where
  "geOne NaN = False"
| "geOne NegInfinity = False"
| "geOne (Num x) = (x \<ge> 1)"
| "geOne PosInfinity = True"

record progress_report =
  report_text :: string
  percent :: jsnumber

text \<open>
  The status bar item and the timers of the event loop, on a clock in milliseconds.
  The only \<open>setTimeout\<close> of the program schedules \<open>progressBar.hide()\<close>, so a pending
  timer is the time at which it is due; the program never calls \<open>clearTimeout\<close>.
\<close>

record ui_state =
  shown :: bool
  bar_text :: string
  now :: nat
  timers :: "nat list"

text \<open>The handler of \<open>emmy/progressReport\<close>.\<close>

definition onProgressReport :: "progress_report \<Rightarrow> ui_state \<Rightarrow> ui_state" where
  "onProgressReport d u =
     (let u1 = u\<lparr>shown := True, bar_text := report_text d\<rparr>
      in if geOne (percent d) then u1\<lparr>timers := timers u1 @ [now u1 + 3000]\<rparr> else u1)"

text \<open>The event loop lets \<open>dt\<close> milliseconds pass: the timers due by then fire (each
  hides the item) and are gone.\<close>

definition elapse :: "nat \<Rightarrow> ui_state \<Rightarrow> ui_state" where
  "elapse dt u =
     (let t = now u + dt
      in u\<lparr>shown := (if filter (\<lambda>due. due \<le> t) (timers u) = [] then shown u else False),
            now := t,
            timers := filter (\<lambda>due. t < due) (timers u)\<rparr>)"

datatype ui_event = Report progress_report | Elapse nat

fun ui_step :: "ui_state \<Rightarrow> ui_event \<Rightarrow> ui_state" where
  "ui_step u (Report d) = onProgressReport d u"
| "ui_step u (Elapse dt) = elapse dt u"

definition ui_run :: "ui_event list \<Rightarrow> ui_state \<Rightarrow> ui_state" where
  "ui_run evs u = foldl ui_step u evs"

text \<open>The time that passes during a list of events.\<close>

fun duration :: "ui_event list \<Rightarrow> nat" where
  "duration [] = 0"
| "duration (Report d # evs) = duration evs"
| "duration (Elapse dt # evs) = dt + duration evs"

subsection \<open>The command that inserts the debugger snippet\<close>

text \<open>\<open>dllPath.replace(/\\/g, '/')\<close>.\<close>

definition replaceBackslashes :: "string \<Rightarrow> string" where
  "replaceBackslashes s = map (\<lambda>c. if c = CHR 0x5C then CHR ''/'' else c) s"

text \<open>A non-negative integer inside a template literal.\<close>

definition digitChar :: "nat \<Rightarrow> char" where
  "digitChar n = ''0123456789'' ! (n mod 10)"

function numberToString :: "nat \<Rightarrow> string" where
  "numberToString n = (if n < 10 then [digitChar n] else numberToString (n div 10) @ [digitChar n])"
  by pat_completeness auto
termination
  by (relation "measure id") auto

declare numberToString.simps [simp del]

definition debug_host :: string where
  "debug_host = ''localhost''"

definition debug_port :: nat where
  "debug_port = 9966"

text \<open>The three texts appended to the \<open>SnippetString\<close>.\<close>

definition snippetText :: "string \<Rightarrow> string" where
  \<open>snippetText dllPath =
     ''package.cpath = package.cpath .. ";'' @ replaceBackslashes dllPath @ ''"'' @ [LF]
     @ ''local dbg = require("emmy_core")'' @ [LF]
     @ ''dbg.tcpListen("'' @ debug_host @ ''", '' @ numberToString debug_port @ '')''\<close>

text \<open>
  \<open>insertEmmyDebugCode\<close>; \<open>editor\<close> is \<open>vscode.window.activeTextEditor\<close> and \<open>arch\<close>
  is what the quick pick resolves to (\<open>undefined\<close>, here \<open>None\<close>, when it is
  dismissed). \<open>!arch\<close> holds of \<open>undefined\<close> and of the empty string.
\<close>

definition insertEmmyDebugCode ::
    "host \<Rightarrow> text_editor option \<Rightarrow> string option \<Rightarrow> ext_state \<Rightarrow> effect list" where
  "insertEmmyDebugCode h editor arch st =
     (case editor of
        None \<Rightarrow> []
      | Some ed \<Rightarrow>
          if languageId h (document ed) \<noteq> ''lua'' then []
          else if platform h = ''win32'' then
            (case arch of
               None \<Rightarrow> [ShowQuickPick [''x64'', ''x86'']]
             | Some a \<Rightarrow>
                 if a = [] then [ShowQuickPick [''x64'', ''x86'']]
                 else [ShowQuickPick [''x64'', ''x86''],
                       InsertSnippet ed
                         (snippetText
                            (path_join h [extensionPath st,
                               ''debugger/emmy/windows/'' @ a @ ''/?.dll'']))])
          else if platform h = ''darwin'' then
            [InsertSnippet ed
               (snippetText (path_join h [extensionPath st, ''debugger/emmy/mac/emmy_core.dylib'']))]
          else if platform h = ''linux'' then
            [InsertSnippet ed
               (snippetText (path_join h [extensionPath st, ''debugger/emmy/linux/emmy_core.so'']))]
          else [InsertSnippet ed (snippetText [])])"

text \<open>The edits among the calls of a handler.\<close>

fun edits :: "effect list \<Rightarrow> (text_editor \<times> string) list" where
  "edits [] = []"
| "edits (InsertSnippet ed t # es) = (ed, t) # edits es"
| "edits (e # es) = edits es"

text \<open>The annotator requests among the calls of a handler.\<close>

fun annotatorRequests :: "effect list \<Rightarrow> (text_editor \<times> language_client option) list" where
  "annotatorRequests [] = []"
| "annotatorRequests (RequestAnnotators ed c # es) = (ed, c) # annotatorRequests es"
| "annotatorRequests (e # es) = annotatorRequests es"

text \<open>The other calls of interest among the calls of a handler.\<close>

fun execCalls :: "effect list \<Rightarrow> string list" where
  "execCalls [] = []"
| "execCalls (CpExec c # es) = c # execCalls es"
| "execCalls (e # es) = execCalls es"

fun newClients :: "effect list \<Rightarrow> language_client list" where
  "newClients [] = []"
| "newClients (NewLanguageClient c # es) = c # newClients es"
| "newClients (e # es) = newClients es"

fun startedClients :: "effect list \<Rightarrow> language_client list" where
  "startedClients [] = []"
| "startedClients (ClientStart c # es) = c # startedClients es"
| "startedClients (e # es) = startedClients es"

fun sentRequests :: "effect list \<Rightarrow> (language_client \<times> string \<times> emmy_config_update) list" where
  "sentRequests [] = []"
| "sentRequests (ClientSendRequest c m e # es) = (c, m, e) # sentRequests es"
| "sentRequests (e # es) = sentRequests es"

fun errorMessages :: "effect list \<Rightarrow> (string option \<times> message_options option \<times> string list) list" where
  "errorMessages [] = []"
| "errorMessages (ShowErrorMessage m opts its # es) = (m, opts, its) # errorMessages es"
| "errorMessages (e # es) = errorMessages es"

text \<open>Whether a call of \<open>showErrorMessage\<close> asks for a modal message.\<close>

fun isModal :: "message_options option \<Rightarrow> bool" where
  "isModal None = False"
| "isModal (Some opts) = modal opts"

subsection \<open>Concrete hosts and states\<close>

text \<open>
  A host whose paths are joined with a slash, on a given platform, where document
  \<open>0\<close> is a Lua document and every other one is plain text; and the module state
  right after activation, before \<open>startServer\<close> has run.
\<close>

definition joinPath :: "string list \<Rightarrow> string" where
  "joinPath ps = foldr (\<lambda>p r. if r = [] then p else p @ ''/'' @ r) ps []"

definition hostOn :: "string \<Rightarrow> host" where
  "hostOn pf =
     \<lparr>path_resolve = joinPath, path_join = joinPath, uri_file = (\<lambda>p. ''file://'' @ p),
      workspace_folders = None, platform = pf,
      languageId = (\<lambda>d. if d = 0 then ''lua'' else ''plaintext'')\<rparr>"

definition activated :: "bool \<Rightarrow> ext_state" where
  "activated dev =
     \<lparr>DEBUG_MODE = dev, extensionPath = ''/ext'', client = None, activeEditor = None,
      javaExecutablePath = None\<rparr>"

definition luaEditor :: text_editor where
  "luaEditor = \<lparr>editor_ref = 1, document = 0\<rparr>"

definition textEditor :: text_editor where
  "textEditor = \<lparr>editor_ref = 2, document = 7\<rparr>"

text \<open>An attempt in which \<open>java -version\<close> prints \<open>stderr\<close>, the server starts, and
  an error message, if one is shown, is answered by \<open>ans\<close>.\<close>

definition attemptWith :: "string \<Rightarrow> string option settled \<Rightarrow> attempt" where
  "attemptWith stderr ans =
     \<lparr>exec_stderr = Some stderr, watch_result = Fulfilled [], ready_result = Fulfilled (),
      window_activeTextEditor = None, answer = ans\<rparr>"

subsection \<open>Version lines\<close>

text \<open>A non-empty text of digits, as a version line has it for its major and its minor
  number; and a text before the version line in which no match of the pattern
  starts.\<close>

definition digitsOK :: "string \<Rightarrow> bool" where
  "digitsOK ds \<longleftrightarrow> ds \<noteq> [] \<and> list_all isDigit ds"

fun noMatchIn :: "string \<Rightarrow> string \<Rightarrow> bool" where
  "noMatchIn [] s = True"
| "noMatchIn (p # ps) s = (matchHere (p # ps @ s) = None \<and> noMatchIn ps s)"

text \<open>An attempt in which \<open>java -version\<close> prints \<open>stderr\<close>, the configuration watcher
  fails with an \<open>Error\<close>, and the error message is answered by \<open>ans\<close>.\<close>

definition failingStart :: "string \<Rightarrow> string option settled \<Rightarrow> attempt" where
  "failingStart stderr ans =
     \<lparr>exec_stderr = Some stderr, watch_result = Rejected (JSError ''Error'' ''boom''),
      ready_result = Pending, window_activeTextEditor = None, answer = ans\<rparr>"

section \<open>Properties\<close>

subsection \<open>Version validation\<close>

lemmas matcher_defs = validateJava_def matchHere_def afterKeyword_def isDigit_def
  isLineTerminator_def decimal_def digitValue_def

lemma matchLiteral_append: "matchLiteral p (p @ s) = Some s"
  by (induction p) simp_all

lemma takeWhile_digits:
  "\<forall>x\<in>set ds. isDigit x \<Longrightarrow> \<not> isDigit c \<Longrightarrow> takeWhile isDigit (ds @ c # r) = ds"
  by (simp add: takeWhile_append2)

lemma take_digit_run:
  assumes "j \<le> length (takeWhile isDigit s)"
  shows "\<forall>x\<in>set (take j s). isDigit x"
proof -
  have "take j s = take j (takeWhile isDigit s @ dropWhile isDigit s)"
    by simp
  also have "\<dots> = take j (takeWhile isDigit s)"
    using assms by (simp del: takeWhile_dropWhile_id)
  finally have "set (take j s) \<subseteq> set (takeWhile isDigit s)"
    by (simp add: set_take_subset)
  then show ?thesis
    by (auto dest: set_takeWhileD)
qed

lemma lazyMore_plain:
  "\<forall>x\<in>set t. x \<noteq> DQ \<and> \<not> isLineTerminator x \<Longrightarrow> lazyMore (t @ DQ # post) = Some t"
  by (induction t) simp_all

lemma dotPlusLazy_plain:
  "\<not> isLineTerminator c \<Longrightarrow> \<forall>x\<in>set t. x \<noteq> DQ \<and> \<not> isLineTerminator x \<Longrightarrow>
     dotPlusLazy (c # t @ DQ # post) = Some (c # t)"
  by (simp add: lazyMore_plain)

lemma group4_all_digits:
  assumes "ds \<noteq> []" and "\<not> isLineTerminator c"
    and "\<forall>x\<in>set t. x \<noteq> DQ \<and> \<not> isLineTerminator x"
  shows "group4 (length ds) (ds @ c # t @ DQ # post) = Some (ds, c # t)"
proof -
  from assms(1) obtain k where k: "length ds = Suc k"
    by (cases ds) auto
  have "drop (Suc k) (ds @ c # t @ DQ # post) = c # t @ DQ # post"
    using k by simp
  moreover have "take (Suc k) (ds @ c # t @ DQ # post) = ds"
    using k by simp
  ultimately show ?thesis
    using k assms(2,3) by (simp add: dotPlusLazy_plain del: dotPlusLazy.simps)
qed

lemma group3_minor:
  assumes "ds \<noteq> []" and "\<forall>x\<in>set ds. isDigit x" and "\<not> isDigit c"
    and "\<not> isLineTerminator c" and "\<forall>x\<in>set t. x \<noteq> DQ \<and> \<not> isLineTerminator x"
  shows "group3 (CHR ''.'' # ds @ c # t @ DQ # post) = Some (CHR ''.'' # ds @ c # t, ds)"
  using assms by (simp add: takeWhile_digits group4_all_digits)

lemma group2_major_minor:
  assumes "M \<noteq> []" and "N \<noteq> []" and "\<forall>x\<in>set N. isDigit x" and "\<not> isDigit c"
    and "\<not> isLineTerminator c" and "\<forall>x\<in>set t. x \<noteq> DQ \<and> \<not> isLineTerminator x"
  shows "group2 (length M) (M @ CHR ''.'' # N @ c # t @ DQ # post)
     = Some \<lparr>m1 = M @ CHR ''.'' # N @ c # t, m2 = M, m4 = Some N\<rparr>"
proof -
  from assms(1) obtain k where k: "length M = Suc k"
    by (cases M) auto
  have "drop (Suc k) (M @ CHR ''.'' # N @ c # t @ DQ # post) = CHR ''.'' # N @ c # t @ DQ # post"
    and "take (Suc k) (M @ CHR ''.'' # N @ c # t @ DQ # post) = M"
    using k by simp_all
  then show ?thesis
    using k group3_minor [OF assms(2-6), of post] by (simp del: group3.simps)
qed

lemma group2_major_only:
  assumes "M \<noteq> []"
  shows "group2 (length M) (M @ DQ # post) = Some \<lparr>m1 = M, m2 = M, m4 = None\<rparr>"
proof -
  from assms obtain k where k: "length M = Suc k"
    by (cases M) auto
  have "drop (Suc k) (M @ DQ # post) = DQ # post" and "take (Suc k) (M @ DQ # post) = M"
    using k by simp_all
  then show ?thesis
    using k by simp
qed

lemma not_digit_dot: "\<not> isDigit (CHR ''.'')"
  by (simp add: isDigit_def)

lemma not_digit_quote: "\<not> isDigit DQ"
  by (simp add: isDigit_def)

lemma afterKeyword_major_minor:
  assumes "M \<noteq> []" and "\<forall>x\<in>set M. isDigit x" and "N \<noteq> []" and "\<forall>x\<in>set N. isDigit x"
    and "\<not> isDigit c" and "\<not> isLineTerminator c"
    and "\<forall>x\<in>set t. x \<noteq> DQ \<and> \<not> isLineTerminator x"
  shows \<open>afterKeyword ('' version "'' @ M @ CHR ''.'' # N @ c # t @ DQ # post)
     = Some \<lparr>m1 = M @ CHR ''.'' # N @ c # t, m2 = M, m4 = Some N\<rparr>\<close>
  unfolding afterKeyword_def matchLiteral_append
  using takeWhile_digits [OF assms(2) not_digit_dot, of "N @ c # t @ DQ # post"]
    group2_major_minor [OF assms(1) assms(3-7), of post]
  by simp

lemma afterKeyword_major_only:
  assumes "M \<noteq> []" and "\<forall>x\<in>set M. isDigit x"
  shows \<open>afterKeyword ('' version "'' @ M @ DQ # post) = Some \<lparr>m1 = M, m2 = M, m4 = None\<rparr>\<close>
  unfolding afterKeyword_def matchLiteral_append
  using takeWhile_digits [OF assms(2) not_digit_quote, of post] group2_major_only [OF assms(1), of post]
  by simp

lemma matchHere_keyword:
  assumes "kw = ''java'' \<or> kw = ''openjdk''" and "afterKeyword r = Some m"
  shows "matchHere (kw @ r) = Some m"
proof -
  from assms(1) show ?thesis
  proof
    assume "kw = ''java''"
    then have "matchLiteral ''java'' (kw @ r) = Some r"
      using matchLiteral_append [of "''java''" r] by simp
    with assms(2) show ?thesis by (simp add: matchHere_def)
  next
    assume kw: "kw = ''openjdk''"
    then have "matchLiteral ''openjdk'' (kw @ r) = Some r"
      using matchLiteral_append [of "''openjdk''" r] by simp
    moreover have "matchLiteral ''java'' (kw @ r) = None"
      using kw by simp
    ultimately show ?thesis
      using assms(2) by (simp add: matchHere_def)
  qed
qed

lemma regexp_exec_here: "matchHere s = Some m \<Longrightarrow> regexp_exec s = Some m"
  by (cases s) simp_all

lemma regexp_exec_after: "noMatchIn pre s \<Longrightarrow> regexp_exec (pre @ s) = regexp_exec s"
  by (induction pre) simp_all

lemma take_digitsOK:
  assumes "Suc j \<le> length (takeWhile isDigit s)"
  shows "digitsOK (take (Suc j) s)"
proof -
  have "length (takeWhile isDigit s) \<le> length s"
    by (rule length_takeWhile_le)
  with assms have "s \<noteq> []" by auto
  then have "take (Suc j) s \<noteq> []" by simp
  with take_digit_run [OF assms] show ?thesis
    by (simp add: digitsOK_def list_all_iff)
qed

lemma group4_capture:
  "group4 k s = Some (mi, t) \<Longrightarrow> k \<le> length (takeWhile isDigit s) \<Longrightarrow> digitsOK mi"
proof (induction k)
  case 0
  then show ?case by simp
next
  case (Suc k)
  show ?case
  proof (cases "dotPlusLazy (drop (Suc k) s)")
    case None
    with Suc show ?thesis by simp
  next
    case (Some u)
    with Suc.prems have "mi = take (Suc k) s" by simp
    with Suc.prems(2) show ?thesis by (simp add: take_digitsOK)
  qed
qed

lemma group3_capture: "group3 s = Some (g, mi) \<Longrightarrow> digitsOK mi"
proof (cases s)
  case Nil
  assume "group3 s = Some (g, mi)"
  with Nil show ?thesis by simp
next
  case (Cons c cs)
  assume "group3 s = Some (g, mi)"
  with Cons obtain t where "group4 (length (takeWhile isDigit cs)) cs = Some (mi, t)"
    by (auto split: if_splits option.splits)
  then show ?thesis
    by (rule group4_capture) simp
qed

lemma group2_capture:
  "group2 k s = Some m \<Longrightarrow> k \<le> length (takeWhile isDigit s) \<Longrightarrow>
     digitsOK (m2 m) \<and> (case m4 m of None \<Rightarrow> True | Some d \<Rightarrow> digitsOK d)"
proof (induction k)
  case 0
  then show ?case by simp
next
  case (Suc k)
  have major: "digitsOK (take (Suc k) s)"
    using Suc.prems(2) by (rule take_digitsOK)
  show ?case
  proof (cases "group3 (drop (Suc k) s)")
    case (Some gm)
    obtain g mi where gm: "gm = (g, mi)" by (cases gm)
    with Some Suc.prems(1) have m: "m = \<lparr>m1 = take (Suc k) s @ g, m2 = take (Suc k) s, m4 = Some mi\<rparr>"
      by simp
    from Some gm have "digitsOK mi" by (auto dest: group3_capture)
    with m major show ?thesis by simp
  next
    case None
    show ?thesis
    proof (cases "matchLiteral [DQ] (drop (Suc k) s)")
      case (Some r)
      with None Suc.prems(1) have "m = \<lparr>m1 = take (Suc k) s, m2 = take (Suc k) s, m4 = None\<rparr>"
        by simp
      with major show ?thesis by simp
    next
      case None2: None
      with None Suc show ?thesis by simp
    qed
  qed
qed

lemma regexp_exec_capture:
  "regexp_exec s = Some m \<Longrightarrow>
     digitsOK (m2 m) \<and> (case m4 m of None \<Rightarrow> True | Some d \<Rightarrow> digitsOK d)"
proof (induction s)
  case Nil
  then show ?case
    by (simp add: matchHere_def afterKeyword_def)
next
  case (Cons c cs)
  show ?case
  proof (cases "matchHere (c # cs)")
    case None
    with Cons show ?thesis by simp
  next
    case (Some m')
    with Cons.prems have "matchHere (c # cs) = Some m" by simp
    then obtain r where "afterKeyword r = Some m"
      by (auto simp: matchHere_def split: option.splits Option.bind_splits)
    then obtain v where "group2 (length (takeWhile isDigit v)) v = Some m"
      by (auto simp: afterKeyword_def split: option.splits)
    then show ?thesis
      by (rule group2_capture) simp
  qed
qed

lemma parseInt_digitsOK:
  assumes "digitsOK ds"
  shows "parseInt (Some ds) = Some (decimal ds)"
proof -
  from assms have run: "takeWhile isDigit ds = ds" and ne: "ds \<noteq> []"
    by (simp_all add: digitsOK_def list_all_iff takeWhile_eq_all_conv)
  show ?thesis by (simp add: run ne)
qed

text \<open>
  What \<open>validateJava\<close> does in terms of the captures of the pattern: the text is
  accepted if and only if the major capture is above 1, or is 1 with a minor capture
  of at least 8, an absent minor capture counting as 0; a text that the pattern
  does not match is rejected as a missing runtime, and a match below 1.8 as an
  unsupported version.
\<close>

theorem validateJava_by_captures:
  "validateJava stderr =
     (case regexp_exec stderr of
        None \<Rightarrow> Rejected (JSString cantFindJava)
      | Some m \<Rightarrow>
          if 1 < decimal (m2 m)
             \<or> (decimal (m2 m) = 1 \<and> 8 \<le> (case m4 m of None \<Rightarrow> 0 | Some d \<Rightarrow> decimal d))
          then Fulfilled ()
          else Rejected (JSString (unsupportedJava (m1 m))))"
proof (cases "regexp_exec stderr")
  case None
  then show ?thesis by (simp add: validateJava_def)
next
  case (Some m)
  then have ne: "stderr \<noteq> []"
    by (auto simp: matchHere_def afterKeyword_def)
  from regexp_exec_capture [OF Some]
  have major: "parseInt (Some (m2 m)) = Some (decimal (m2 m))"
    and minor: "orZero (parseInt (m4 m)) = (case m4 m of None \<Rightarrow> 0 | Some d \<Rightarrow> decimal d)"
    by (auto simp: parseInt_digitsOK simp del: parseInt.simps(2) split: option.splits)
  from Some ne major minor show ?thesis
    by (simp add: validateJava_def Let_def del: parseInt.simps(2))
qed

text \<open>
  On the version lines that Java prints, \<open>java version "1.8.0_202"\<close> or
  \<open>openjdk version "11" 2018-09-25\<close>, the captures are the major and the minor number
  of the line: after the minor number comes a character that is no digit, and
  the rest of the version has no quote and no line break.
\<close>

theorem validateJava_version_line:
  assumes "kw = ''java'' \<or> kw = ''openjdk''"
    and "digitsOK M" and "digitsOK N"
    and "\<not> isDigit c" and "list_all (\<lambda>x. x \<noteq> DQ \<and> \<not> isLineTerminator x) (c # t)"
    and \<open>noMatchIn pre (kw @ '' version "'' @ M @ CHR ''.'' # N @ c # t @ DQ # post)\<close>
  shows \<open>validateJava (pre @ kw @ '' version "'' @ M @ CHR ''.'' # N @ c # t @ DQ # post) =
     (if 1 < decimal M \<or> (decimal M = 1 \<and> 8 \<le> decimal N) then Fulfilled ()
      else Rejected (JSString (unsupportedJava (M @ CHR ''.'' # N @ c # t))))\<close>
proof -
  let ?line = \<open>kw @ '' version "'' @ M @ CHR ''.'' # N @ c # t @ DQ # post\<close>
  have \<open>afterKeyword ('' version "'' @ M @ CHR ''.'' # N @ c # t @ DQ # post)
     = Some \<lparr>m1 = M @ CHR ''.'' # N @ c # t, m2 = M, m4 = Some N\<rparr>\<close>
    using assms(2-5) by (intro afterKeyword_major_minor) (simp_all add: digitsOK_def list_all_iff)
  with assms(1) have "matchHere ?line = Some \<lparr>m1 = M @ CHR ''.'' # N @ c # t, m2 = M, m4 = Some N\<rparr>"
    by (rule matchHere_keyword)
  then have "regexp_exec ?line = Some \<lparr>m1 = M @ CHR ''.'' # N @ c # t, m2 = M, m4 = Some N\<rparr>"
    by (rule regexp_exec_here)
  with regexp_exec_after [OF assms(6)]
  have "regexp_exec (pre @ ?line) = Some \<lparr>m1 = M @ CHR ''.'' # N @ c # t, m2 = M, m4 = Some N\<rparr>"
    by simp
  then show ?thesis
    by (simp add: validateJava_by_captures)
qed

theorem validateJava_major_only:
  assumes "kw = ''java'' \<or> kw = ''openjdk''" and "digitsOK M"
    and \<open>noMatchIn pre (kw @ '' version "'' @ M @ DQ # post)\<close>
  shows \<open>validateJava (pre @ kw @ '' version "'' @ M @ DQ # post) =
     (if 1 < decimal M then Fulfilled () else Rejected (JSString (unsupportedJava M)))\<close>
proof -
  let ?line = \<open>kw @ '' version "'' @ M @ DQ # post\<close>
  have \<open>afterKeyword ('' version "'' @ M @ DQ # post) = Some \<lparr>m1 = M, m2 = M, m4 = None\<rparr>\<close>
    using assms(2) by (intro afterKeyword_major_only) (simp_all add: digitsOK_def list_all_iff)
  with assms(1) have "matchHere ?line = Some \<lparr>m1 = M, m2 = M, m4 = None\<rparr>"
    by (rule matchHere_keyword)
  then have "regexp_exec ?line = Some \<lparr>m1 = M, m2 = M, m4 = None\<rparr>"
    by (rule regexp_exec_here)
  with regexp_exec_after [OF assms(3)]
  have "regexp_exec (pre @ ?line) = Some \<lparr>m1 = M, m2 = M, m4 = None\<rparr>"
    by simp
  then show ?thesis
    by (simp add: validateJava_by_captures)
qed

lemmas eval_defs = matchHere_def afterKeyword_def isDigit_def isLineTerminator_def decimal_def
  digitValue_def digitsOK_def

theorem validateJava_version_line_witness:
  \<open>digitsOK ''1'' \<and> digitsOK ''8'' \<and> \<not> isDigit (CHR ''.'')
   \<and> list_all (\<lambda>x. x \<noteq> DQ \<and> \<not> isLineTerminator x) ''.0_202''
   \<and> noMatchIn (''Picked up _JAVA_OPTIONS: -Xmx1g'' @ [LF])
        (''java version "1.8.0_202"'' @ [LF])
   \<and> validateJava (''Picked up _JAVA_OPTIONS: -Xmx1g'' @ [LF] @ ''java version "1.8.0_202"'' @ [LF])
      = Fulfilled ()
   \<and> digitsOK ''7''
   \<and> validateJava (''java version "1.7.0"'') = Rejected (JSString (unsupportedJava ''1.7.0''))\<close>
  using validateJava_version_line [of "''java''" "''1''" "''8''" "CHR ''.''" "''0_202''"
      "''Picked up _JAVA_OPTIONS: -Xmx1g'' @ [LF]" "[LF]"]
    validateJava_version_line [of "''java''" "''1''" "''7''" "CHR ''.''" "''0''" "[]" "[]"]
  by (simp add: eval_defs)

theorem validateJava_major_only_witness:
  \<open>digitsOK ''11''
   \<and> noMatchIn [] (''openjdk version "11" 2018-09-25'')
   \<and> validateJava (''openjdk version "11" 2018-09-25'') = Fulfilled ()
   \<and> digitsOK ''1''
   \<and> validateJava (''java version "1"'') = Rejected (JSString (unsupportedJava ''1''))\<close>
  using validateJava_major_only [of "''openjdk''" "''11''" "[]" "'' 2018-09-25''"]
    validateJava_major_only [of "''java''" "''1''" "[]" "[]"]
  by (simp add: eval_defs)

text \<open>
  Claim C1 says that every version string \<open>"<major>.<minor>..."\<close> is accepted if and
  only if it is 1.8 or above. The code does not do so when nothing follows the minor
  number, or when a suffix follows a major number that has no minor number. The
  pattern asks for at least one character between the minor number and the closing
  quote (\<open>.+?\<close>). On \<open>java version "1.10"\<close> the minor capture therefore gives its
  last digit back to \<open>.+?\<close>: the code reads major 1 and minor 1, and rejects version
  1.10 as unsupported. On \<open>java version "1.8"\<close> group 3 cannot match at all and the
  quote does not follow the major number, so the text is not recognised and the
  rejection is the one for a missing runtime. The same happens on
  \<open>openjdk version "11-ea" 2018-09-25\<close>, as an early-access build prints it.
\<close>

theorem validateJava_short_versions:
  \<open>validateJava ''java version "1.10"'' = Rejected (JSString (unsupportedJava ''1.10''))
   \<and> validateJava ''java version "1.8"'' = Rejected (JSString cantFindJava)
   \<and> validateJava (''openjdk version "11-ea" 2018-09-25'' @ [LF])
       = Rejected (JSString cantFindJava)\<close>
  by (simp add: matcher_defs)

subsection \<open>Calls and state that a start leaves alone\<close>

lemma sentRequests_append: "sentRequests (xs @ ys) = sentRequests xs @ sentRequests ys"
  by (induction xs rule: sentRequests.induct) simp_all

lemma execCalls_append: "execCalls (xs @ ys) = execCalls xs @ execCalls ys"
  by (induction xs rule: execCalls.induct) simp_all

lemma errorMessages_append: "errorMessages (xs @ ys) = errorMessages xs @ errorMessages ys"
  by (induction xs rule: errorMessages.induct) simp_all

lemma onDidChangeActiveTextEditor_keeps:
  assumes "onDidChangeActiveTextEditor h ed st = (es, st')"
  shows "DEBUG_MODE st' = DEBUG_MODE st" and "javaExecutablePath st' = javaExecutablePath st"
    and "extensionPath st' = extensionPath st" and "client st' = client st"
    and "sentRequests es = []" and "execCalls es = []"
  using assms by (auto simp: onDidChangeActiveTextEditor_def split: option.splits if_splits)

lemma doStartServer_keeps:
  assumes "doStartServer h a st = (es, st', r)"
  shows "DEBUG_MODE st' = DEBUG_MODE st" and "javaExecutablePath st' = javaExecutablePath st"
    and "extensionPath st' = extensionPath st"
    and "sentRequests es = []" and "execCalls es = []"
  using assms by (auto simp: doStartServer_def Let_def split: settled.splits)

lemma connectServer_keeps:
  assumes "connectServer h a st = (es, st', again)"
  shows "DEBUG_MODE st' = DEBUG_MODE st" and "javaExecutablePath st' = javaExecutablePath st"
    and "extensionPath st' = extensionPath st"
    and "sentRequests es = []" and "execCalls es = []"
proof -
  obtain es1 st1 r where d: "doStartServer h a st = (es1, st1, r)"
    by (cases "doStartServer h a st") auto
  note k1 = doStartServer_keeps [OF d]
  obtain es2 st2 where e: "onDidChangeActiveTextEditor h (window_activeTextEditor a) st1 = (es2, st2)"
    by (cases "onDidChangeActiveTextEditor h (window_activeTextEditor a) st1") auto
  note k2 = onDidChangeActiveTextEditor_keeps [OF e]
  have "DEBUG_MODE st' = DEBUG_MODE st \<and> javaExecutablePath st' = javaExecutablePath st
      \<and> extensionPath st' = extensionPath st \<and> sentRequests es = [] \<and> execCalls es = []"
    using assms d e k1 k2
    by (cases r) (auto simp: connectServer_def tryAgain_def sentRequests_append execCalls_append)
  then show "DEBUG_MODE st' = DEBUG_MODE st" and "javaExecutablePath st' = javaExecutablePath st"
    and "extensionPath st' = extensionPath st"
    and "sentRequests es = []" and "execCalls es = []"
    by simp_all
qed

lemma startAttempt_keeps:
  assumes "startAttempt h a st = (es, st', again)"
  shows "DEBUG_MODE st' = DEBUG_MODE st" and "javaExecutablePath st' = javaExecutablePath st"
    and "extensionPath st' = extensionPath st"
    and "sentRequests es = []"
  using assms
  by (auto simp: startAttempt_def tryAgain_def
      split: prod.splits settled.splits option.splits if_splits
      dest: connectServer_keeps)

lemma startAttempt_debug_no_exec:
  assumes "startAttempt h a st = (es, st', again)" and "DEBUG_MODE st"
  shows "execCalls es = []"
  using assms by (auto simp: startAttempt_def dest: connectServer_keeps)

lemma startServer_keeps:
  "startServer h script st = (es, st') \<Longrightarrow>
     DEBUG_MODE st' = DEBUG_MODE st \<and> javaExecutablePath st' = javaExecutablePath st
     \<and> extensionPath st' = extensionPath st \<and> sentRequests es = []"
proof (induction script arbitrary: st es st')
  case Nil
  then show ?case
    by (auto split: prod.splits dest: startAttempt_keeps)
next
  case (Cons a as)
  obtain es1 st1 again where att: "startAttempt h a st = (es1, st1, again)"
    by (cases "startAttempt h a st") auto
  show ?case
  proof (cases again)
    case False
    with att Cons.prems show ?thesis
      by (auto dest: startAttempt_keeps)
  next
    case True
    obtain es2 st2 where rest: "startServer h as st1 = (es2, st2)"
      by (cases "startServer h as st1") auto
    from Cons.IH [OF rest] att True rest Cons.prems show ?thesis
      by (auto simp: sentRequests_append dest: startAttempt_keeps)
  qed
qed

lemma startServer_debug_no_exec:
  "DEBUG_MODE st \<Longrightarrow> execCalls (fst (startServer h script st)) = []"
proof (induction script arbitrary: st)
  case Nil
  then show ?case
    by (auto split: prod.splits dest: startAttempt_debug_no_exec)
next
  case (Cons a as)
  obtain es1 st1 again where att: "startAttempt h a st = (es1, st1, again)"
    by (cases "startAttempt h a st") auto
  have d: "DEBUG_MODE st1" using att Cons.prems by (auto dest: startAttempt_keeps)
  from Cons.IH [OF d] att Cons.prems show ?case
    by (auto simp: execCalls_append split: prod.splits dest: startAttempt_debug_no_exec)
qed

subsection \<open>Restart\<close>

text \<open>
  Claim C4. With no client, \<open>restartServer\<close> does exactly what \<open>startServer\<close> does. With
  a client \<open>c\<close>, its first call is \<open>c.stop()\<close>; the calls of \<open>startServer\<close> follow it,
  and they are made only once the promise of \<open>stop\<close> is fulfilled.
\<close>

theorem restartServer_fresh_or_stop_first:
  "(client st = None \<longrightarrow> restartServer h stopped script st = startServer h script st)
   \<and> (client st = Some c \<longrightarrow>
        restartServer h stopped script st =
          (if stopped = Fulfilled ()
           then (ClientStop c # fst (startServer h script st), snd (startServer h script st))
           else ([ClientStop c], st)))"
  by (cases stopped) (auto simp: restartServer_def split: prod.splits)

theorem restartServer_witness:
  "client (activated False) = None
   \<and> restartServer (hostOn ''linux'') Pending [] (activated False)
       = startServer (hostOn ''linux'') [] (activated False)
   \<and> fst (restartServer (hostOn ''linux'') (Fulfilled ()) []
        ((activated True)\<lparr>client := Some (newClient (hostOn ''linux'') (activated True) [])\<rparr>))
       = [ClientStop (newClient (hostOn ''linux'') (activated True) []), ConfigWatcherWatch]"
  using restartServer_fresh_or_stop_first [of "activated False" "hostOn ''linux''" Pending "[]"]
    restartServer_fresh_or_stop_first [of
      "(activated True)\<lparr>client := Some (newClient (hostOn ''linux'') (activated True) [])\<rparr>"
      "hostOn ''linux''" "Fulfilled ()" "[]" "newClient (hostOn ''linux'') (activated True) []"]
  by (simp add: activated_def startAttempt_def connectServer_def doStartServer_def idle_def)

subsection \<open>Configuration changes\<close>

text \<open>
  Claim C6. On every configuration change \<open>findJava\<close> is called first and the
  annotator is then configured again, whatever the path found; the calls of
  \<open>restartServer\<close> follow if and only if the path found differs from the cached
  one; and afterwards the cached path is the path found.
\<close>

theorem onDidChangeConfiguration_restart_iff:
  "fst (onDidChangeConfiguration h found stopped script st) =
     FindJava # AnnotatorOnDidChangeConfiguration (client st) #
       (if found \<noteq> javaExecutablePath st
        then fst (restartServer h stopped script (st\<lparr>javaExecutablePath := found\<rparr>))
        else [])
   \<and> javaExecutablePath (snd (onDidChangeConfiguration h found stopped script st)) = found"
proof -
  let ?st1 = "st\<lparr>javaExecutablePath := found\<rparr>"
  have keep: "javaExecutablePath (snd (startServer h script ?st1)) = found"
    using startServer_keeps [of h script ?st1 "fst (startServer h script ?st1)"
        "snd (startServer h script ?st1)"]
    by simp
  have "javaExecutablePath (snd (restartServer h stopped script ?st1)) = found"
    using keep by (cases stopped) (auto simp: restartServer_def split: option.splits prod.splits)
  then show ?thesis
    by (auto simp: onDidChangeConfiguration_def Let_def split: prod.splits)
qed

theorem onDidChangeConfiguration_witness:
  "fst (onDidChangeConfiguration (hostOn ''linux'') (Some ''/usr/bin/java'') Pending []
          (activated False))
     = [FindJava, AnnotatorOnDidChangeConfiguration None,
        CpExec ([DQ] @ ''/usr/bin/java'' @ [DQ] @ '' -version'')]
   \<and> fst (onDidChangeConfiguration (hostOn ''linux'') None Pending [] (activated False))
     = [FindJava, AnnotatorOnDidChangeConfiguration None]"
  using onDidChangeConfiguration_restart_iff [of "hostOn ''linux''" "Some ''/usr/bin/java''"
      Pending "[]" "activated False"]
    onDidChangeConfiguration_restart_iff [of "hostOn ''linux''" None Pending "[]" "activated False"]
  by (simp add: activated_def restartServer_def startAttempt_def idle_def versionCommand_def
      exePath_def)

subsection \<open>Annotator requests\<close>

text \<open>
  Claim C7. A document change makes exactly one call, an annotator request, when
  the changed document is the document of \<open>activeEditor\<close> and is a Lua document, and
  no call otherwise; a change of the active editor makes exactly one annotator
  request when the new editor shows a Lua document, and no call otherwise. No
  request is made for a document whose language is not Lua.
\<close>

theorem annotator_request_once:
  "onDidChangeTextDocument h doc st =
     (case activeEditor st of
        None \<Rightarrow> []
      | Some ae \<Rightarrow>
          if document ae = doc \<and> languageId h doc = ''lua''
          then [RequestAnnotators ae (client st)] else [])
   \<and> fst (onDidChangeActiveTextEditor h editor st) =
     (case editor of
        None \<Rightarrow> []
      | Some ed \<Rightarrow>
          if languageId h (document ed) = ''lua''
          then [RequestAnnotators ed (client st)] else [])
   \<and> (languageId h doc \<noteq> ''lua'' \<longrightarrow>
        annotatorRequests (onDidChangeTextDocument h doc st) = [])
   \<and> (languageId h (document ed) \<noteq> ''lua'' \<longrightarrow>
        annotatorRequests (fst (onDidChangeActiveTextEditor h (Some ed) st)) = [])"
  by (auto simp: onDidChangeTextDocument_def onDidChangeActiveTextEditor_def LANGUAGE_ID_def
      split: option.splits)

theorem annotator_request_witness:
  "onDidChangeTextDocument (hostOn ''linux'') 0 ((activated False)\<lparr>activeEditor := Some luaEditor\<rparr>)
     = [RequestAnnotators luaEditor None]
   \<and> languageId (hostOn ''linux'') 7 \<noteq> ''lua''
   \<and> annotatorRequests
        (onDidChangeTextDocument (hostOn ''linux'') 7
           ((activated False)\<lparr>activeEditor := Some textEditor\<rparr>)) = []
   \<and> fst (onDidChangeActiveTextEditor (hostOn ''linux'') (Some luaEditor) (activated False))
     = [RequestAnnotators luaEditor None]
   \<and> annotatorRequests
        (fst (onDidChangeActiveTextEditor (hostOn ''linux'') (Some textEditor) (activated False))) = []"
  using annotator_request_once [of "hostOn ''linux''" 0
      "(activated False)\<lparr>activeEditor := Some luaEditor\<rparr>" "Some luaEditor" luaEditor]
    annotator_request_once [of "hostOn ''linux''" 7
      "(activated False)\<lparr>activeEditor := Some textEditor\<rparr>" "Some luaEditor" textEditor]
    annotator_request_once [of "hostOn ''linux''" 7 "activated False" "Some luaEditor" textEditor]
  by (simp add: hostOn_def activated_def luaEditor_def textEditor_def)

subsection \<open>The debugger snippet\<close>

lemma numberToString_9966: "numberToString 9966 = ''9966''"
  by (simp add: numberToString.simps [of 9966] numberToString.simps [of 996]
      numberToString.simps [of 99] numberToString.simps [of 9] digitChar_def)

lemma snippetText_eq:
  \<open>snippetText p =
     ''package.cpath = package.cpath .. ";'' @ replaceBackslashes p @ ''"'' @ [LF]
     @ ''local dbg = require("emmy_core")'' @ [LF] @ ''dbg.tcpListen("localhost", 9966)''\<close>
  by (simp add: snippetText_def debug_host_def debug_port_def numberToString_9966)

text \<open>
  Claim C8. The quick pick offers \<open>x64\<close> and \<open>x86\<close> only, so it does not resolve to the
  empty string. Then the command makes no edit when there is no active editor, when
  the document is not a Lua document, or on Windows when the prompt is dismissed;
  in every other case it makes one edit, the three lines with the library path of
  the platform (backslashes turned into slashes), \<open>localhost\<close> and \<open>9966\<close>.
\<close>

theorem insertEmmyDebugCode_edits:
  assumes "arch \<noteq> Some []"
  shows "edits (insertEmmyDebugCode h editor arch st) =
     (case editor of
        None \<Rightarrow> []
      | Some ed \<Rightarrow>
          if languageId h (document ed) \<noteq> ''lua'' \<or> (platform h = ''win32'' \<and> arch = None)
          then []
          else [(ed, snippetText
                  (if platform h = ''win32''
                   then path_join h [extensionPath st,
                          ''debugger/emmy/windows/'' @ the arch @ ''/?.dll'']
                   else if platform h = ''darwin''
                   then path_join h [extensionPath st, ''debugger/emmy/mac/emmy_core.dylib'']
                   else if platform h = ''linux''
                   then path_join h [extensionPath st, ''debugger/emmy/linux/emmy_core.so'']
                   else []))])
     \<and> snippetText p =
         ''package.cpath = package.cpath .. '' @ [DQ] @ '';'' @ replaceBackslashes p @ [DQ, LF]
         @ ''local dbg = require('' @ [DQ] @ ''emmy_core'' @ [DQ] @ '')'' @ [LF]
         @ ''dbg.tcpListen('' @ [DQ] @ ''localhost'' @ [DQ] @ '', 9966)''"
  using assms
  by (auto simp: insertEmmyDebugCode_def snippetText_eq split: option.splits)

theorem insertEmmyDebugCode_edits_witness:
  \<open>edits (insertEmmyDebugCode (hostOn ''win32'') (Some luaEditor) None (activated False)) = []
   \<and> edits (insertEmmyDebugCode (hostOn ''win32'') (Some textEditor) (Some ''x64'') (activated False)) = []
   \<and> edits (insertEmmyDebugCode (hostOn ''win32'') None (Some ''x64'') (activated False)) = []
   \<and> edits (insertEmmyDebugCode (hostOn ''win32'') (Some luaEditor) (Some ''x64'') (activated False))
      = [(luaEditor,
          ''package.cpath = package.cpath .. ";/ext/debugger/emmy/windows/x64/?.dll"'' @ [LF]
          @ ''local dbg = require("emmy_core")'' @ [LF]
          @ ''dbg.tcpListen("localhost", 9966)'')]\<close>
  using insertEmmyDebugCode_edits [of None "hostOn ''win32''" "Some luaEditor" "activated False" "[]"]
    insertEmmyDebugCode_edits [of "Some ''x64''" "hostOn ''win32''" "Some textEditor" "activated False" "[]"]
    insertEmmyDebugCode_edits [of "Some ''x64''" "hostOn ''win32''" None "activated False" "[]"]
    insertEmmyDebugCode_edits [of "Some ''x64''" "hostOn ''win32''" "Some luaEditor" "activated False"
      "''/ext/debugger/emmy/windows/x64/?.dll''"]
  by (simp add: hostOn_def activated_def luaEditor_def textEditor_def joinPath_def
      replaceBackslashes_def)

text \<open>
  Claim C9. On a platform that is not Windows, macOS or Linux, the command run on a
  Lua document does not return early: its only call inserts the three lines, with
  the empty string as library path.
\<close>

theorem insertEmmyDebugCode_other_platform:
  assumes "platform h \<noteq> ''win32''" and "platform h \<noteq> ''darwin''" and "platform h \<noteq> ''linux''"
    and "languageId h (document ed) = ''lua''"
  shows "insertEmmyDebugCode h (Some ed) arch st = [InsertSnippet ed (snippetText [])]
     \<and> snippetText [] =
         ''package.cpath = package.cpath .. '' @ [DQ] @ '';'' @ [DQ, LF]
         @ ''local dbg = require('' @ [DQ] @ ''emmy_core'' @ [DQ] @ '')'' @ [LF]
         @ ''dbg.tcpListen('' @ [DQ] @ ''localhost'' @ [DQ] @ '', 9966)''"
  using assms
  by (simp add: insertEmmyDebugCode_def snippetText_eq replaceBackslashes_def)

theorem insertEmmyDebugCode_other_platform_witness:
  \<open>platform (hostOn ''freebsd'') \<noteq> ''win32'' \<and> platform (hostOn ''freebsd'') \<noteq> ''darwin''
   \<and> platform (hostOn ''freebsd'') \<noteq> ''linux''
   \<and> languageId (hostOn ''freebsd'') (document luaEditor) = ''lua''
   \<and> insertEmmyDebugCode (hostOn ''freebsd'') (Some luaEditor) None (activated False)
      = [InsertSnippet luaEditor
          (''package.cpath = package.cpath .. ";"'' @ [LF]
           @ ''local dbg = require("emmy_core")'' @ [LF]
           @ ''dbg.tcpListen("localhost", 9966)'')]\<close>
  using insertEmmyDebugCode_other_platform [of "hostOn ''freebsd''" luaEditor None "activated False"]
  by (simp add: hostOn_def luaEditor_def)

subsection \<open>Configuration updates\<close>

text \<open>
  Claim C10. Without a client a configuration update makes no call, and it is kept
  nowhere: the handler does not change the state, and a later start sends no
  request. With a client \<open>c\<close> the update is sent to \<open>c\<close> as it is, as an
  \<open>emmy/updateConfig\<close> request.
\<close>

theorem onConfigUpdate_forwards:
  "(client st = None \<longrightarrow> onConfigUpdate e st = [])
   \<and> (client st = Some c \<longrightarrow> onConfigUpdate e st = [ClientSendRequest c ''emmy/updateConfig'' e])
   \<and> sentRequests (fst (startServer h script st)) = []"
  using startServer_keeps [of h script st "fst (startServer h script st)" "snd (startServer h script st)"]
  by (simp add: onConfigUpdate_def)

theorem onConfigUpdate_witness:
  "client (activated False) = None \<and> onConfigUpdate ''{}'' (activated False) = []
   \<and> onConfigUpdate ''{}''
        ((activated False)\<lparr>client := Some (newClient (hostOn ''linux'') (activated False) [])\<rparr>)
      = [ClientSendRequest (newClient (hostOn ''linux'') (activated False) []) ''emmy/updateConfig'' ''{}'']"
  using onConfigUpdate_forwards [of "activated False" "''{}''" undefined "hostOn ''linux''" "[]"]
    onConfigUpdate_forwards [of
      "(activated False)\<lparr>client := Some (newClient (hostOn ''linux'') (activated False) [])\<rparr>"
      "''{}''" "newClient (hostOn ''linux'') (activated False) []" "hostOn ''linux''" "[]"]
  by (simp add: activated_def)

subsection \<open>Development mode\<close>

lemma validateJava_1_8_0_202: \<open>validateJava ''java version "1.8.0_202"'' = Fulfilled ()\<close>
  by (simp add: matcher_defs)

lemma validateJava_garbage: \<open>validateJava ''garbage'' = Rejected (JSString cantFindJava)\<close>
  by (simp add: matcher_defs)

lemma newClients_append: "newClients (xs @ ys) = newClients xs @ newClients ys"
  by (induction xs rule: newClients.induct) simp_all

lemma startedClients_append: "startedClients (xs @ ys) = startedClients xs @ startedClients ys"
  by (induction xs rule: startedClients.induct) simp_all

lemma doStartServer_calls:
  "watch_result a = Fulfilled files \<Longrightarrow>
     fst (doStartServer h a st) =
       [ConfigWatcherWatch, NewLanguageClient (newClient h st files),
        ClientStart (newClient h st files)]
       @ (if ready_result a = Fulfilled ()
          then [ClientOnNotification (newClient h st files) ''emmy/progressReport''] else [])"
  by (cases "ready_result a") (simp_all add: doStartServer_def Let_def)

lemma connectServer_calls:
  assumes "watch_result a = Fulfilled files"
  shows "\<exists>rest. fst (connectServer h a st) =
       [ConfigWatcherWatch, NewLanguageClient (newClient h st files),
        ClientStart (newClient h st files)] @ rest"
proof -
  obtain es st' r where d: "doStartServer h a st = (es, st', r)"
    by (cases "doStartServer h a st") auto
  with doStartServer_calls [OF assms, of h st] obtain tl where
    es: "es = [ConfigWatcherWatch, NewLanguageClient (newClient h st files),
        ClientStart (newClient h st files)] @ tl"
    by auto
  show ?thesis
    using d es by (cases r) (auto simp: connectServer_def split: prod.splits)
qed

lemma startServer_begins_with_attempt:
  "\<exists>more. fst (startServer h (a # as) st) = fst (startAttempt h a st) @ more"
  by (cases "startAttempt h a st") (auto split: prod.splits)

lemma startAttempt_first_call:
  "\<not> DEBUG_MODE st \<Longrightarrow> take 1 (fst (startAttempt h a st)) = [CpExec (versionCommand st)]"
  by (auto simp: startAttempt_def split: option.splits settled.splits prod.splits)

lemma startServer_first_call:
  assumes "\<not> DEBUG_MODE st"
  shows "take 1 (fst (startServer h script st)) = [CpExec (versionCommand st)]"
proof -
  have first: "take 1 (fst (startAttempt h b st)) = [CpExec (versionCommand st)]" for b
    using assms by (rule startAttempt_first_call)
  show ?thesis
  proof (cases script)
    case Nil
    with first [of idle] show ?thesis
      by (cases "startAttempt h idle st") simp
  next
    case (Cons a as)
    obtain es st' again where att: "startAttempt h a st = (es, st', again)"
      by (cases "startAttempt h a st") auto
    with first [of a] obtain es' where "es = CpExec (versionCommand st) # es'"
      by (cases es) auto
    with att Cons show ?thesis
      by (auto split: prod.splits)
  qed
qed

lemma startServer_rejected_validation:
  assumes "\<not> DEBUG_MODE st" and "exec_stderr a = Some stderr"
    and "validateJava stderr = Rejected e"
  shows "newClients (fst (startServer h [a] st)) = []"
    and "startedClients (fst (startServer h [a] st)) = []"
  using assms
  by (auto simp: startAttempt_def tryAgain_def idle_def split: settled.splits)

text \<open>
  Claim C5. In development mode \<open>startServer\<close> never executes \<open>java -version\<close>,
  whatever path the Java locator gave and however often the start is retried; once
  the configuration watcher has answered, its next calls construct the client and
  start it, and this client connects to the socket on port 5007. Outside
  development mode the first call of \<open>startServer\<close> executes \<open>java -version\<close>; when
  the validation fails no client is constructed or started; when it succeeds the
  client is constructed and started, and it spawns the Java executable with the
  arguments \<open>-cp\<close>, the path \<open>server/*\<close> under the extension,
  \<open>com.tang.vscode.MainKt\<close> and \<open>-XX:+UseConcMarkSweepGC\<close>.
\<close>

theorem startServer_debug_mode:
  "(DEBUG_MODE st \<longrightarrow>
      execCalls (fst (startServer h script st)) = []
      \<and> (watch_result a = Fulfilled files \<longrightarrow>
           take 3 (fst (startServer h (a # as) st)) =
             [ConfigWatcherWatch, NewLanguageClient (newClient h st files),
              ClientStart (newClient h st files)]
           \<and> serverOptions (newClient h st files) = SocketConnect 5007))
   \<and> (\<not> DEBUG_MODE st \<longrightarrow>
      take 1 (fst (startServer h script st)) = [CpExec (versionCommand st)]
      \<and> (exec_stderr a = Some stderr \<and> validateJava stderr = Rejected e \<longrightarrow>
           newClients (fst (startServer h [a] st)) = []
           \<and> startedClients (fst (startServer h [a] st)) = [])
      \<and> (exec_stderr a = Some stderr \<and> validateJava stderr = Fulfilled ()
           \<and> watch_result a = Fulfilled files \<longrightarrow>
           take 4 (fst (startServer h (a # as) st)) =
             [CpExec (versionCommand st), ConfigWatcherWatch,
              NewLanguageClient (newClient h st files), ClientStart (newClient h st files)]
           \<and> serverOptions (newClient h st files) =
             Executable (exePath st)
               [''-cp'', path_resolve h [extensionPath st, ''server'', ''*''],
                ''com.tang.vscode.MainKt'', ''-XX:+UseConcMarkSweepGC'']))"
proof (cases "DEBUG_MODE st")
  case True
  have "take 3 (fst (startServer h (a # as) st)) =
      [ConfigWatcherWatch, NewLanguageClient (newClient h st files),
       ClientStart (newClient h st files)]"
    if w: "watch_result a = Fulfilled files"
  proof -
    from connectServer_calls [OF w, of h st] True obtain rest where
      "fst (startAttempt h a st) =
        [ConfigWatcherWatch, NewLanguageClient (newClient h st files),
         ClientStart (newClient h st files)] @ rest"
      by (auto simp: startAttempt_def)
    with startServer_begins_with_attempt [of h a as st] show ?thesis
      by auto
  qed
  with True startServer_debug_no_exec [of st h script] show ?thesis
    by (simp add: newClient_def makeServerOptions_def)
next
  case False
  have acc: "take 4 (fst (startServer h (a # as) st)) =
      [CpExec (versionCommand st), ConfigWatcherWatch,
       NewLanguageClient (newClient h st files), ClientStart (newClient h st files)]"
    if x: "exec_stderr a = Some stderr" and v: "validateJava stderr = Fulfilled ()"
      and w: "watch_result a = Fulfilled files"
  proof -
    from connectServer_calls [OF w, of h st] obtain rest where
      "fst (connectServer h a st) =
        [ConfigWatcherWatch, NewLanguageClient (newClient h st files),
         ClientStart (newClient h st files)] @ rest"
      by auto
    with False x v have "fst (startAttempt h a st) =
        [CpExec (versionCommand st), ConfigWatcherWatch,
         NewLanguageClient (newClient h st files), ClientStart (newClient h st files)] @ rest"
      by (auto simp: startAttempt_def split: prod.splits)
    with startServer_begins_with_attempt [of h a as st] show ?thesis
      by auto
  qed
  from False acc startServer_first_call [of st h script]
    startServer_rejected_validation [of st a stderr e h]
  show ?thesis
    by (simp add: newClient_def makeServerOptions_def)
qed

theorem startServer_debug_mode_witness:
  \<open>DEBUG_MODE (activated True)
   \<and> execCalls (fst (startServer (hostOn ''linux'') [attemptWith ''garbage'' Pending] (activated True))) = []
   \<and> watch_result (attemptWith ''garbage'' Pending) = Fulfilled []
   \<and> take 3 (fst (startServer (hostOn ''linux'') [attemptWith ''garbage'' Pending] (activated True)))
      = [ConfigWatcherWatch,
         NewLanguageClient (newClient (hostOn ''linux'') (activated True) []),
         ClientStart (newClient (hostOn ''linux'') (activated True) [])]
   \<and> serverOptions (newClient (hostOn ''linux'') (activated True) []) = SocketConnect 5007
   \<and> map serverOptions (startedClients
        (fst (startServer (hostOn ''linux'') [attemptWith ''garbage'' Pending] (activated True))))
      = [SocketConnect 5007]
   \<and> \<not> DEBUG_MODE (activated False)
   \<and> take 1 (fst (startServer (hostOn ''linux'') [] (activated False)))
      = [CpExec ''"java" -version'']
   \<and> validateJava ''garbage'' = Rejected (JSString cantFindJava)
   \<and> startedClients
        (fst (startServer (hostOn ''linux'') [attemptWith ''garbage'' Pending] (activated False))) = []
   \<and> validateJava ''java version "1.8.0_202"'' = Fulfilled ()
   \<and> take 4 (fst (startServer (hostOn ''linux'')
        [attemptWith ''java version "1.8.0_202"'' Pending] (activated False)))
      = [CpExec ''"java" -version'', ConfigWatcherWatch,
         NewLanguageClient (newClient (hostOn ''linux'') (activated False) []),
         ClientStart (newClient (hostOn ''linux'') (activated False) [])]
   \<and> map serverOptions (startedClients
        (fst (startServer (hostOn ''linux'')
           [attemptWith ''java version "1.8.0_202"'' Pending] (activated False))))
      = [Executable ''java''
           [''-cp'', ''/ext/server/*'', ''com.tang.vscode.MainKt'', ''-XX:+UseConcMarkSweepGC'']]\<close>
  using startServer_debug_mode [of "activated True" "hostOn ''linux''" "[attemptWith ''garbage'' Pending]"
      "attemptWith ''garbage'' Pending" "[]" "[]" "''garbage''" "JSString cantFindJava"]
    startServer_debug_mode [of "activated False" "hostOn ''linux''" "[]"
      "attemptWith ''garbage'' Pending" "[]" "[]" "''garbage''" "JSString cantFindJava"]
    startServer_debug_mode [of "activated False" "hostOn ''linux''" "[]"
      \<open>attemptWith ''java version "1.8.0_202"'' Pending\<close> "[]" "[]"
      \<open>''java version "1.8.0_202"''\<close> "JSString cantFindJava"]
  by (simp add: validateJava_1_8_0_202 validateJava_garbage activated_def attemptWith_def
      hostOn_def joinPath_def versionCommand_def exePath_def startAttempt_def connectServer_def
      doStartServer_def onDidChangeActiveTextEditor_def newClient_def makeServerOptions_def
      makeClientOptions_def Let_def idle_def tryAgain_def)

subsection \<open>Failure and retry\<close>

lemma doStartServer_result:
  "snd (snd (doStartServer h a st)) =
     (case watch_result a of
        Pending \<Rightarrow> Pending
      | Rejected r \<Rightarrow> Rejected r
      | Fulfilled files \<Rightarrow>
          (case ready_result a of
             Pending \<Rightarrow> Pending | Rejected r \<Rightarrow> Rejected r | Fulfilled u \<Rightarrow> Fulfilled ()))"
  by (simp add: doStartServer_def Let_def split: settled.splits)

lemma doStartServer_no_message:
  "doStartServer h a st = (es, st', r) \<Longrightarrow> errorMessages es = []"
  by (auto simp: doStartServer_def Let_def split: settled.splits)

lemma startAttempt_start_failure:
  assumes "DEBUG_MODE st \<or> (exec_stderr a = Some stderr \<and> validateJava stderr = Fulfilled ())"
    and "doStartServer h a st = (es, st', Rejected r)"
  shows "startAttempt h a st =
     ((if DEBUG_MODE st then [] else [CpExec (versionCommand st)]) @ es
        @ [ShowErrorMessage (Some (failedToStart r)) None [''Try again'']], st',
      (case answer a of Fulfilled _ \<Rightarrow> True | Pending \<Rightarrow> False | Rejected _ \<Rightarrow> False))"
  using assms by (auto simp: startAttempt_def connectServer_def tryAgain_def)

lemma startServer_idle:
  "errorMessages (fst (startServer h [] st)) = []
   \<and> length (execCalls (fst (startServer h [] st))) = (if DEBUG_MODE st then 0 else 1)"
  by (simp add: startAttempt_def connectServer_def doStartServer_def idle_def)

lemma startServer_start_retries:
  assumes "answer a = Fulfilled x" and "snd (snd (doStartServer h a st0)) = Rejected r"
    and "DEBUG_MODE st \<or> (exec_stderr a = Some stderr \<and> validateJava stderr = Fulfilled ())"
  shows "length (errorMessages (fst (startServer h (replicate n a) st))) = n
     \<and> length (execCalls (fst (startServer h (replicate n a) st)))
         = (if DEBUG_MODE st then 0 else Suc n)"
  using assms(3)
proof (induction n arbitrary: st)
  case 0
  show ?case using startServer_idle [of h st] by simp
next
  case (Suc n)
  obtain es st' r' where d: "doStartServer h a st = (es, st', r')"
    by (cases "doStartServer h a st") auto
  have "r' = Rejected r"
    using d assms(2) doStartServer_result [of h a st] doStartServer_result [of h a st0] by simp
  with d have d': "doStartServer h a st = (es, st', Rejected r)" by simp
  have att: "startAttempt h a st =
     ((if DEBUG_MODE st then [] else [CpExec (versionCommand st)]) @ es
        @ [ShowErrorMessage (Some (failedToStart r)) None [''Try again'']], st', True)"
    using startAttempt_start_failure [OF Suc.prems d'] assms(1) by simp
  have keep: "DEBUG_MODE st' = DEBUG_MODE st" and noexec: "execCalls es = []"
    using doStartServer_keeps [OF d'] by simp_all
  have nomsg: "errorMessages es = []"
    using d' by (rule doStartServer_no_message)
  have "DEBUG_MODE st' \<or> (exec_stderr a = Some stderr \<and> validateJava stderr = Fulfilled ())"
    using Suc.prems keep by simp
  from Suc.IH [OF this] att keep noexec nomsg show ?case
    by (simp add: split_beta errorMessages_append execCalls_append)
qed

text \<open>
  Claim C2, as the code has it, for a failure of the server start. When
  \<open>doStartServer\<close> fails, the last call of the run is \<open>showErrorMessage\<close> with the
  text that reports the failure, the single item \<open>Try again\<close> and no options, so the
  message is not modal. If the user chooses \<open>Try again\<close>, \<open>startServer\<close> runs again
  from the top, validation included, on the state the failed run left; while the
  message is unanswered nothing more is called. For every \<open>n\<close>, a script of \<open>n\<close>
  failing runs each answered with \<open>Try again\<close> shows \<open>n\<close> messages and, outside
  development mode, executes \<open>java -version\<close> \<open>n + 1\<close> times: the number of retries
  has no bound.
\<close>

theorem startServer_try_again:
  "(DEBUG_MODE st \<or> (exec_stderr a = Some stderr \<and> validateJava stderr = Fulfilled ()))
     \<and> doStartServer h a st = (es, st', Rejected r) \<longrightarrow>
      (answer a = Fulfilled (Some ''Try again'') \<longrightarrow>
         startServer h (a # as) st =
           ((if DEBUG_MODE st then [] else [CpExec (versionCommand st)]) @ es
              @ ShowErrorMessage (Some (failedToStart r)) None [''Try again'']
              # fst (startServer h as st'),
            snd (startServer h as st'))
         \<and> length (errorMessages (fst (startServer h (replicate n a) st))) = n
         \<and> length (execCalls (fst (startServer h (replicate n a) st)))
             = (if DEBUG_MODE st then 0 else Suc n))
      \<and> (answer a = Pending \<longrightarrow>
         startServer h (a # as) st =
           ((if DEBUG_MODE st then [] else [CpExec (versionCommand st)]) @ es
              @ [ShowErrorMessage (Some (failedToStart r)) None [''Try again'']], st'))"
proof (intro impI)
  assume s: "(DEBUG_MODE st \<or> (exec_stderr a = Some stderr \<and> validateJava stderr = Fulfilled ()))
     \<and> doStartServer h a st = (es, st', Rejected r)"
  then have v: "DEBUG_MODE st \<or> (exec_stderr a = Some stderr \<and> validateJava stderr = Fulfilled ())"
    and d: "doStartServer h a st = (es, st', Rejected r)"
    by simp_all
  note att = startAttempt_start_failure [OF v d]
  have again: "startServer h (a # as) st =
           ((if DEBUG_MODE st then [] else [CpExec (versionCommand st)]) @ es
              @ ShowErrorMessage (Some (failedToStart r)) None [''Try again'']
              # fst (startServer h as st'),
            snd (startServer h as st'))"
    if "answer a = Fulfilled (Some ''Try again'')"
    using att that by (simp add: split_beta)
  have count: "length (errorMessages (fst (startServer h (replicate n a) st))) = n
         \<and> length (execCalls (fst (startServer h (replicate n a) st)))
             = (if DEBUG_MODE st then 0 else Suc n)"
    if t: "answer a = Fulfilled (Some ''Try again'')"
    using startServer_start_retries [OF t _ v, of h st r n] d by simp
  have wait: "startServer h (a # as) st =
           ((if DEBUG_MODE st then [] else [CpExec (versionCommand st)]) @ es
              @ [ShowErrorMessage (Some (failedToStart r)) None [''Try again'']], st')"
    if "answer a = Pending"
    using att that by simp
  from again count wait
  show "(answer a = Fulfilled (Some ''Try again'') \<longrightarrow>
         startServer h (a # as) st =
           ((if DEBUG_MODE st then [] else [CpExec (versionCommand st)]) @ es
              @ ShowErrorMessage (Some (failedToStart r)) None [''Try again'']
              # fst (startServer h as st'),
            snd (startServer h as st'))
         \<and> length (errorMessages (fst (startServer h (replicate n a) st))) = n
         \<and> length (execCalls (fst (startServer h (replicate n a) st)))
             = (if DEBUG_MODE st then 0 else Suc n))
      \<and> (answer a = Pending \<longrightarrow>
         startServer h (a # as) st =
           ((if DEBUG_MODE st then [] else [CpExec (versionCommand st)]) @ es
              @ [ShowErrorMessage (Some (failedToStart r)) None [''Try again'']], st'))"
    by blast
qed

lemmas start_defs = activated_def failingStart_def doStartServer_def startAttempt_def
  connectServer_def tryAgain_def idle_def versionCommand_def exePath_def failedToStart_def

theorem startServer_try_again_witness:
  \<open>validateJava ''java version "1.8.0_202"'' = Fulfilled ()
   \<and> exec_stderr (failingStart ''java version "1.8.0_202"'' (Fulfilled (Some ''Try again'')))
      = Some ''java version "1.8.0_202"''
   \<and> doStartServer (hostOn ''linux'')
        (failingStart ''java version "1.8.0_202"'' (Fulfilled (Some ''Try again''))) (activated False)
      = ([ConfigWatcherWatch], activated False, Rejected (JSError ''Error'' ''boom''))
   \<and> answer (failingStart ''java version "1.8.0_202"'' (Fulfilled (Some ''Try again'')))
      = Fulfilled (Some ''Try again'')
   \<and> fst (startServer (hostOn ''linux'')
        [failingStart ''java version "1.8.0_202"'' (Fulfilled (Some ''Try again''))] (activated False))
      = [CpExec ''"java" -version'', ConfigWatcherWatch,
         ShowErrorMessage
           (Some (''Failed to start "EmmyLua" language server!'' @ [LF] @ ''Error: boom''))
           None [''Try again''],
         CpExec ''"java" -version'']
   \<and> length (errorMessages (fst (startServer (hostOn ''linux'')
        (replicate 5 (failingStart ''java version "1.8.0_202"'' (Fulfilled (Some ''Try again''))))
        (activated False)))) = 5
   \<and> length (execCalls (fst (startServer (hostOn ''linux'')
        (replicate 5 (failingStart ''java version "1.8.0_202"'' (Fulfilled (Some ''Try again''))))
        (activated False)))) = 6
   \<and> DEBUG_MODE (activated True)
   \<and> doStartServer (hostOn ''linux'') (failingStart [] Pending) (activated True)
      = ([ConfigWatcherWatch], activated True, Rejected (JSError ''Error'' ''boom''))
   \<and> answer (failingStart [] Pending) = Pending
   \<and> fst (startServer (hostOn ''linux'') [failingStart [] Pending] (activated True))
      = [ConfigWatcherWatch,
         ShowErrorMessage
           (Some (''Failed to start "EmmyLua" language server!'' @ [LF] @ ''Error: boom''))
           None [''Try again'']]\<close>
  using startServer_try_again [of "activated False"
      \<open>failingStart ''java version "1.8.0_202"'' (Fulfilled (Some ''Try again''))\<close>
      \<open>''java version "1.8.0_202"''\<close> "hostOn ''linux''" "[ConfigWatcherWatch]" "activated False"
      "JSError ''Error'' ''boom''" "[]" 5]
    startServer_try_again [of "activated True" "failingStart [] Pending" "[]"
      "hostOn ''linux''" "[ConfigWatcherWatch]" "activated True" "JSError ''Error'' ''boom''" "[]" 0]
  by (simp add: validateJava_1_8_0_202 start_defs)

text \<open>
  Claim C2, as stated, fails. The server start fails and the user dismisses the
  message, choosing nothing: the thenable is fulfilled with \<open>undefined\<close> and
  \<open>.then(startServer)\<close> runs \<open>startServer\<close> again all the same, so \<open>java -version\<close>
  is executed a second time. And the call of \<open>showErrorMessage\<close> passes no options,
  so the message is not modal.
\<close>

theorem startServer_retry_on_dismissal:
  \<open>answer (failingStart ''java version "1.8.0_202"'' (Fulfilled None)) = Fulfilled None
   \<and> fst (startServer (hostOn ''linux'')
        [failingStart ''java version "1.8.0_202"'' (Fulfilled None)] (activated False))
      = [CpExec ''"java" -version'', ConfigWatcherWatch,
         ShowErrorMessage
           (Some (''Failed to start "EmmyLua" language server!'' @ [LF] @ ''Error: boom''))
           None [''Try again''],
         CpExec ''"java" -version'']
   \<and> \<not> isModal None\<close>
  by (simp add: validateJava_1_8_0_202 start_defs)

subsection \<open>Progress reports\<close>

lemma onProgressReport_now: "now (onProgressReport d u) = now u"
  by (simp add: onProgressReport_def Let_def)

lemma onProgressReport_timers:
  "timers (onProgressReport d u) = timers u @ (if geOne (percent d) then [now u + 3000] else [])"
  by (simp add: onProgressReport_def Let_def)

lemma elapse_now: "now (elapse dt u) = now u + dt"
  by (simp add: elapse_def Let_def)

lemma elapse_keeps_later:
  "T \<in> set (timers u) \<Longrightarrow> now u + dt < T \<Longrightarrow> T \<in> set (timers (elapse dt u))"
  by (simp add: elapse_def Let_def)

lemma elapse_fires:
  assumes "T \<in> set (timers u)" and "T \<le> now u + dt"
  shows "\<not> shown (elapse dt u)"
proof -
  from assms have "T \<in> set (filter (\<lambda>due. due \<le> now u + dt) (timers u))"
    by simp
  then have "filter (\<lambda>due. due \<le> now u + dt) (timers u) \<noteq> []"
    by (metis empty_iff empty_set)
  then show ?thesis
    by (simp add: elapse_def Let_def)
qed

lemma ui_run_keeps_later:
  "T \<in> set (timers u) \<Longrightarrow> now u + duration evs < T \<Longrightarrow>
     T \<in> set (timers (ui_run evs u)) \<and> now (ui_run evs u) = now u + duration evs"
proof (induction evs arbitrary: u)
  case Nil
  then show ?case by (simp add: ui_run_def)
next
  case (Cons ev evs)
  show ?case
  proof (cases ev)
    case (Report d)
    have "T \<in> set (timers (onProgressReport d u))"
      using Cons.prems(1) by (simp add: onProgressReport_timers)
    moreover have "now (onProgressReport d u) + duration evs < T"
      using Cons.prems(2) Report by (simp add: onProgressReport_now)
    ultimately show ?thesis
      using Cons.IH [of "onProgressReport d u"] Report
      by (simp add: ui_run_def onProgressReport_now)
  next
    case (Elapse dt)
    have "T \<in> set (timers (elapse dt u))"
      using Cons.prems Elapse by (intro elapse_keeps_later) simp_all
    moreover have "now (elapse dt u) + duration evs < T"
      using Cons.prems(2) Elapse by (simp add: elapse_now)
    ultimately show ?thesis
      using Cons.IH [of "elapse dt u"] Elapse
      by (simp add: ui_run_def elapse_now)
  qed
qed

text \<open>
  Claim C3. A report schedules a hide three seconds later if and only if its percent
  is at least 1. A hide scheduled at time \<open>t\<close> stays scheduled through every sequence of
  later reports, whatever their percent, and of time passing, as long as less than
  three seconds pass; when the clock reaches \<open>t + 3000\<close> the indicator is hidden.
\<close>

theorem progress_hide_never_cancelled:
  "timers (onProgressReport d u) =
     timers u @ (if geOne (percent d) then [now u + 3000] else [])
   \<and> (geOne (percent d) \<and> duration evs < 3000 \<longrightarrow>
        now u + 3000 \<in> set (timers (ui_run evs (onProgressReport d u)))
        \<and> now (elapse (3000 - duration evs) (ui_run evs (onProgressReport d u))) = now u + 3000
        \<and> \<not> shown (elapse (3000 - duration evs) (ui_run evs (onProgressReport d u))))"
proof (intro conjI impI)
  show "timers (onProgressReport d u) =
     timers u @ (if geOne (percent d) then [now u + 3000] else [])"
    by (rule onProgressReport_timers)
next
  assume a: "geOne (percent d) \<and> duration evs < 3000"
  let ?v = "onProgressReport d u"
  let ?w = "ui_run evs ?v"
  have "now u + 3000 \<in> set (timers ?v)"
    using a by (simp add: onProgressReport_timers)
  moreover have "now ?v + duration evs < now u + 3000"
    using a by (simp add: onProgressReport_now)
  ultimately have k: "now u + 3000 \<in> set (timers ?w) \<and> now ?w = now ?v + duration evs"
    by (rule ui_run_keeps_later)
  then show "now u + 3000 \<in> set (timers ?w)" by simp
  from k a show "now (elapse (3000 - duration evs) ?w) = now u + 3000"
    by (simp add: elapse_now onProgressReport_now)
  from k a have "now u + 3000 \<le> now ?w + (3000 - duration evs)"
    by (simp add: onProgressReport_now)
  with k show "\<not> shown (elapse (3000 - duration evs) ?w)"
    by (intro elapse_fires [of "now u + 3000"]) simp_all
qed

theorem progress_hide_witness:
  "geOne (percent \<lparr>report_text = ''done'', percent = Num 1\<rparr>)
   \<and> duration [Elapse 1000, Report \<lparr>report_text = ''loading'', percent = Num (1 / 2)\<rparr>] < 3000
   \<and> timers (onProgressReport \<lparr>report_text = ''loading'', percent = Num (1 / 2)\<rparr>
        \<lparr>shown = False, bar_text = [], now = 0, timers = []\<rparr>) = []
   \<and> shown (ui_run [Elapse 1000, Report \<lparr>report_text = ''loading'', percent = Num (1 / 2)\<rparr>]
        (onProgressReport \<lparr>report_text = ''done'', percent = Num 1\<rparr>
           \<lparr>shown = False, bar_text = [], now = 0, timers = []\<rparr>))
   \<and> \<not> shown (elapse 2000
        (ui_run [Elapse 1000, Report \<lparr>report_text = ''loading'', percent = Num (1 / 2)\<rparr>]
           (onProgressReport \<lparr>report_text = ''done'', percent = Num 1\<rparr>
              \<lparr>shown = False, bar_text = [], now = 0, timers = []\<rparr>)))"
  using progress_hide_never_cancelled [of "\<lparr>report_text = ''done'', percent = Num 1\<rparr>"
      "\<lparr>shown = False, bar_text = [], now = 0, timers = []\<rparr>"
      "[Elapse 1000, Report \<lparr>report_text = ''loading'', percent = Num (1 / 2)\<rparr>]"]
    progress_hide_never_cancelled [of "\<lparr>report_text = ''loading'', percent = Num (1 / 2)\<rparr>"
      "\<lparr>shown = False, bar_text = [], now = 0, timers = []\<rparr>" "[]"]
  by (simp add: ui_run_def onProgressReport_def elapse_def)

end
